theory Spec2Isabelle
  imports Complex_Main "HOL-Library.Char_ord" "HOL-Library.List_Lexorder" "HOL-Library.Sublist"
begin

section \<open>Python values and the builtins the parameter loader calls\<close>

text \<open>
  The parameter loader (\<^verbatim>\<open>ionspid/cli/utils/param_loader.py\<close>) handles dictionaries from
  parameter names to dynamically typed values. A Python \<^verbatim>\<open>float\<close> is represented by the
  number its literal denotes (or one of the three special values); rounding to binary64 is
  not modelled, since nothing below computes with floats.
\<close>

datatype pyfloat = FFinite rat | FInf | FNegInf | FNaN

datatype pyval = PNone | PBool bool | PInt int | PFloat pyfloat | PStr string

type_synonym pydict = "string \<rightharpoonup> pyval"

text \<open>\<^verbatim>\<open>str.lower()\<close> on the ASCII letters; every other character is left as it is.\<close>

definition lower_char :: "char \<Rightarrow> char" where
  "lower_char c =
     (case map_of (zip ''ABCDEFGHIJKLMNOPQRSTUVWXYZ'' ''abcdefghijklmnopqrstuvwxyz'') c of
        Some d \<Rightarrow> d
      | None \<Rightarrow> c)"

definition lower :: "string \<Rightarrow> string" where
  "lower s = map lower_char s"

text \<open>
  The builtins \<^verbatim>\<open>int(s)\<close> and \<^verbatim>\<open>float(s)\<close> on the ASCII fragment of Python's grammar:
  surrounding whitespace is stripped, a sign is optional, digits may be grouped by single
  underscores. \<open>None\<close> stands for \<^verbatim>\<open>ValueError\<close>.
\<close>

definition is_space :: "char \<Rightarrow> bool" where
  "is_space c = (c \<in> set [CHR '' '', CHR 0x09, CHR 0x0A, CHR 0x0B, CHR 0x0C, CHR 0x0D])"

definition strip :: "string \<Rightarrow> string" where
  "strip s = rev (dropWhile is_space (rev (dropWhile is_space s)))"

definition digit_val :: "char \<Rightarrow> nat option" where
  "digit_val c = map_of (zip ''0123456789'' [0, 1, 2, 3, 4, 5, 6, 7, 8, 9]) c"

fun digits_acc :: "nat \<Rightarrow> nat \<Rightarrow> string \<Rightarrow> (nat \<times> nat) option" where
  "digits_acc n k [] = Some (n, k)"
| "digits_acc n k (c # cs) =
     (case digit_val c of
        Some d \<Rightarrow> digits_acc (10 * n + d) (Suc k) cs
      | None \<Rightarrow>
          (if c = CHR ''_'' then
             (case cs of
                [] \<Rightarrow> None
              | c' # cs' \<Rightarrow>
                  (case digit_val c' of
                     Some d \<Rightarrow> digits_acc (10 * n + d) (Suc k) cs'
                   | None \<Rightarrow> None))
           else None))"

text \<open>\<open>digitpart s\<close>: the value and the number of digits of \<^verbatim>\<open>digit (["_"] digit)*\<close>.\<close>

definition digitpart :: "string \<Rightarrow> (nat \<times> nat) option" where
  "digitpart s =
     (case s of
        [] \<Rightarrow> None
      | c # cs \<Rightarrow> (case digit_val c of Some d \<Rightarrow> digits_acc d 1 cs | None \<Rightarrow> None))"

definition signed :: "string \<Rightarrow> bool \<times> string" where
  "signed s =
     (case s of
        c # cs \<Rightarrow> (if c = CHR ''-'' then (True, cs) else if c = CHR ''+'' then (False, cs) else (False, s))
      | [] \<Rightarrow> (False, s))"

definition py_int :: "string \<Rightarrow> int option" where
  "py_int s =
     (case signed (strip s) of
        (neg, body) \<Rightarrow>
          (case digitpart body of
             Some (n, _) \<Rightarrow> Some (if neg then - int n else int n)
           | None \<Rightarrow> None))"

definition pow10 :: "int \<Rightarrow> rat" where
  "pow10 e = (if 0 \<le> e then 10 ^ nat e else 1 / 10 ^ nat (- e))"

text \<open>The mantissa \<^verbatim>\<open>[digitpart] "." digitpart | digitpart ["."]\<close> as a rational.\<close>

definition mantissa :: "string \<Rightarrow> rat option" where
  "mantissa m =
     (let ip = takeWhile (\<lambda>c. c \<noteq> CHR ''.'') m; rest = dropWhile (\<lambda>c. c \<noteq> CHR ''.'') m in
      if rest = [] then map_option (\<lambda>(n, _). of_nat n) (digitpart ip)
      else
        (let fp = tl rest in
         if fp = [] then map_option (\<lambda>(n, _). of_nat n) (digitpart ip)
         else
           (case digitpart fp of
              None \<Rightarrow> None
            | Some (f, k) \<Rightarrow>
                (if ip = [] then Some (of_nat f * pow10 (- int k))
                 else
                   (case digitpart ip of
                      None \<Rightarrow> None
                    | Some (n, _) \<Rightarrow> Some (of_nat n + of_nat f * pow10 (- int k)))))))"

definition exponent :: "string \<Rightarrow> int option" where
  "exponent s =
     (case signed s of
        (neg, body) \<Rightarrow>
          (case digitpart body of
             Some (n, _) \<Rightarrow> Some (if neg then - int n else int n)
           | None \<Rightarrow> None))"

definition floatnumber :: "string \<Rightarrow> rat option" where
  "floatnumber s =
     (let is_e = (\<lambda>c. c = CHR ''e'' \<or> c = CHR ''E'');
          m = takeWhile (\<lambda>c. \<not> is_e c) s; rest = dropWhile (\<lambda>c. \<not> is_e c) s in
      case mantissa m of
        None \<Rightarrow> None
      | Some q \<Rightarrow>
          (if rest = [] then Some q
           else (case exponent (tl rest) of None \<Rightarrow> None | Some e \<Rightarrow> Some (q * pow10 e))))"

definition py_float :: "string \<Rightarrow> pyfloat option" where
  "py_float s =
     (case signed (strip s) of
        (neg, body) \<Rightarrow>
          (if lower body = ''inf'' \<or> lower body = ''infinity'' then Some (if neg then FNegInf else FInf)
           else if lower body = ''nan'' then Some FNaN
           else
             (case floatnumber body of
                Some q \<Rightarrow> Some (FFinite (if neg then - q else q))
              | None \<Rightarrow> None)))"

section \<open>The parameter loader\<close>

text \<open>
  \<^verbatim>\<open>_coerce_env_value\<close>: the two boolean tests come first; then exactly one of the two
  numeric parses is tried inside the \<^verbatim>\<open>try\<close>, and a \<^verbatim>\<open>ValueError\<close> leaves the string.
\<close>

definition coerce_env_value :: "string \<Rightarrow> pyval" where
  "coerce_env_value v =
     (if lower v \<in> set [''true'', ''yes'', ''1'', ''on''] then PBool True
      else if lower v \<in> set [''false'', ''no'', ''0'', ''off''] then PBool False
      else
        (case (if CHR ''.'' \<notin> set v \<and> CHR ''e'' \<notin> set (lower v)
               then map_option PInt (py_int v)
               else map_option PFloat (py_float v)) of
           Some x \<Rightarrow> x
         | None \<Rightarrow> PStr v))"

text \<open>
  \<^verbatim>\<open>load_env_vars\<close>: the environment is a list of name/value pairs; a later variable that
  yields the same parameter name overwrites an earlier one.
\<close>

definition startswith :: "string \<Rightarrow> string \<Rightarrow> bool" where
  "startswith k p = (take (length p) k = p)"

fun load_env_vars_from :: "pydict \<Rightarrow> string \<Rightarrow> (string \<times> string) list \<Rightarrow> pydict" where
  "load_env_vars_from params p [] = params"
| "load_env_vars_from params p ((k, v) # kvs) =
     (if startswith k p
      then load_env_vars_from (params(lower (drop (length p) k) \<mapsto> coerce_env_value v)) p kvs
      else load_env_vars_from params p kvs)"

definition load_env_vars :: "(string \<times> string) list \<Rightarrow> string \<Rightarrow> pydict" where
  "load_env_vars environ p = load_env_vars_from Map.empty p environ"

text \<open>
  \<^verbatim>\<open>merge_params\<close>: a copy of the config dictionary, updated with the environment
  dictionary, then with the CLI entries whose value is not \<^verbatim>\<open>None\<close>.
\<close>

definition not_none_items :: "pydict \<Rightarrow> pydict" where
  "not_none_items d = (\<lambda>k. case d k of Some v \<Rightarrow> (if v = PNone then None else Some v) | None \<Rightarrow> None)"

definition merge_params :: "pydict \<Rightarrow> pydict \<Rightarrow> pydict \<Rightarrow> pydict" where
  "merge_params cli_args env_vars config = (config ++ env_vars) ++ not_none_items cli_args"

section \<open>Exceptions, events and parameter validation\<close>

text \<open>
  The exceptions the CLI layer raises or converts. Each carries the text that
  \<^verbatim>\<open>str(e)\<close> gives; a pydantic \<^verbatim>\<open>ValidationError\<close> also carries what \<^verbatim>\<open>e.errors()\<close>
  returns (location and message of each error), and a \<^verbatim>\<open>RuntimeError\<close> its cause.
  \<open>OtherError\<close> is any other subclass of \<^verbatim>\<open>Exception\<close>, with its class name.
\<close>

datatype exn =
    ValidationError "(string list \<times> string) list" string
  | CLIError string
  | ConfigError string
  | ClickException string
  | RuntimeError string exn
  | OtherError string string

fun str_exn :: "exn \<Rightarrow> string" where
  "str_exn (ValidationError errs msg) = msg"
| "str_exn (CLIError msg) = msg"
| "str_exn (ConfigError msg) = msg"
| "str_exn (ClickException msg) = msg"
| "str_exn (RuntimeError msg cause) = msg"
| "str_exn (OtherError cls msg) = msg"

fun join :: "string \<Rightarrow> string list \<Rightarrow> string" where
  "join sep [] = []"
| "join sep [x] = x"
| "join sep (x # y # ys) = x @ sep @ join sep (y # ys)"

text \<open>
  A pydantic model class with the two entry points \<^verbatim>\<open>validate_parameters\<close> uses:
  the constructor \<^verbatim>\<open>model(**params)\<close> and \<^verbatim>\<open>model.model_validate(params, strict=True)\<close>.
\<close>

record 'm pymodel =
  construct :: "pydict \<Rightarrow> exn + 'm"
  model_validate_strict :: "pydict \<Rightarrow> exn + 'm"

text \<open>
  \<^verbatim>\<open>validate_parameters\<close>: a \<^verbatim>\<open>ValidationError\<close> of the model is caught and raised again as
  \<^verbatim>\<open>CLIError\<close> with one line per error; any other exception becomes a \<^verbatim>\<open>CLIError\<close> too.
\<close>

definition validation_message :: "(string list \<times> string) list \<Rightarrow> string" where
  "validation_message errors =
     (let error_msgs = map (\<lambda>(loc, m). ''  '' @ join ''.'' loc @ '': '' @ m) errors;
          formatted_errors = join [CHR 0x0A] error_msgs
      in ''Parameter validation failed:'' @ [CHR 0x0A] @ formatted_errors)"

definition validate_parameters :: "pydict \<Rightarrow> 'm pymodel \<Rightarrow> bool \<Rightarrow> exn + 'm" where
  "validate_parameters params model strict =
     (case (if strict then model_validate_strict model params else construct model params) of
        Inr m \<Rightarrow> Inr m
      | Inl (ValidationError errors msg) \<Rightarrow> Inl (CLIError (validation_message errors))
      | Inl e \<Rightarrow> Inl (CLIError (''Unexpected error during parameter validation: '' @ str_exn e)))"

text \<open>
  What a run of a command shows or writes, in order. \<open>ErrorReported\<close> is a call of
  \<^verbatim>\<open>handle_error\<close> (which logs and prints, and returns); \<open>Exported\<close> is a result file
  written by the named writer. Log records and the progress display are not events.
\<close>

datatype writer = ToCsv | ToJson | ToExcel | ExportResults string

text \<open>
  The rows of an assignment table carry the fields of the specification's Assignment; the
  column list is what a \<^verbatim>\<open>DataFrame\<close> has beside its rows.
\<close>

record assignment =
  a_query_id :: string
  taxonomy :: "string list option"
  a_method :: string
  confidence :: rat
  supporting_hit_count :: nat

record table =
  columns :: "string list"
  rows :: "assignment list"

record taxonomy_result =
  assignments :: table
  metadata :: "(string \<times> string) list"

datatype event =
    ErrorReported exn string
  | Warning string
  | Info string
  | Success string
  | Exported writer taxonomy_result string

text \<open>
  \<^verbatim>\<open>StandardCLIHandler.load_and_validate_params\<close>. \<^verbatim>\<open>load_config_file\<close> reads and parses
  a file and is taken as a function from the path to its outcome; the process environment
  is a list of pairs.
\<close>

definition is_config_or_cli_error :: "exn \<Rightarrow> bool" where
  "is_config_or_cli_error e = (case e of ConfigError _ \<Rightarrow> True | CLIError _ \<Rightarrow> True | _ \<Rightarrow> False)"

definition load_and_validate_params ::
  "(string \<Rightarrow> exn + pydict) \<Rightarrow> (string \<times> string) list \<Rightarrow> pydict \<Rightarrow> 'm pymodel \<Rightarrow>
   string option \<Rightarrow> string option \<Rightarrow> event list \<times> (exn + 'm)" where
  "load_and_validate_params load_config_file environ cli_args param_model config_path env_prefix =
     (case
        (case (case config_path of
                 Some p \<Rightarrow> (if p \<noteq> [] then load_config_file p else Inr Map.empty)
               | None \<Rightarrow> Inr Map.empty) of
           Inl e \<Rightarrow> Inl e
         | Inr config_params \<Rightarrow>
             (let env_params =
                    (case env_prefix of
                       Some p \<Rightarrow> (if p \<noteq> [] then load_env_vars environ p else Map.empty)
                     | None \<Rightarrow> Map.empty);
                  merged_params = merge_params cli_args env_params config_params
              in validate_parameters merged_params param_model False)) of
        Inr validated_params \<Rightarrow> ([], Inr validated_params)
      | Inl e \<Rightarrow>
          (if is_config_or_cli_error e
           then ([ErrorReported e ''Parameter validation failed''], Inl (ClickException (str_exn e)))
           else ([ErrorReported e ''Unexpected error during parameter loading''],
                 Inl (ClickException (''Unexpected error: '' @ str_exn e)))))"

section \<open>The command \<^verbatim>\<open>taxonomy assign\<close>\<close>

text \<open>The options of the command, and the dictionary \<^verbatim>\<open>cli_params\<close> built from them.\<close>

record assign_options =
  opt_input_file :: string
  opt_output_file :: string
  opt_database :: string
  opt_taxonomy_map :: "string option"
  opt_method :: string
  opt_min_identity :: rat
  opt_min_coverage :: rat
  opt_max_evalue :: rat
  opt_min_bit_score :: rat
  opt_threads :: int
  opt_top_hits :: int
  opt_consensus_fraction :: rat
  opt_export_format :: string
  opt_include_confidence :: bool
  opt_blast_params :: "string option"
  opt_config :: "string option"
  opt_verbose :: bool

definition opt_str :: "string option \<Rightarrow> pyval" where
  "opt_str x = (case x of None \<Rightarrow> PNone | Some s \<Rightarrow> PStr s)"

definition cli_params :: "assign_options \<Rightarrow> pydict" where
  "cli_params opts = map_of
     [(''input_file'', PStr (opt_input_file opts)),
      (''output_file'', PStr (opt_output_file opts)),
      (''database'', PStr (opt_database opts)),
      (''taxonomy_map'', opt_str (opt_taxonomy_map opts)),
      (''method'', PStr (opt_method opts)),
      (''min_identity'', PFloat (FFinite (opt_min_identity opts))),
      (''min_coverage'', PFloat (FFinite (opt_min_coverage opts))),
      (''max_evalue'', PFloat (FFinite (opt_max_evalue opts))),
      (''min_bit_score'', PFloat (FFinite (opt_min_bit_score opts))),
      (''threads'', PInt (opt_threads opts)),
      (''top_hits'', PInt (opt_top_hits opts)),
      (''consensus_fraction'', PFloat (FFinite (opt_consensus_fraction opts))),
      (''export_format'', PStr (opt_export_format opts)),
      (''include_confidence'', PBool (opt_include_confidence opts)),
      (''blast_params'', opt_str (opt_blast_params opts)),
      (''verbose'', PBool (opt_verbose opts))]"

text \<open>
  \<^verbatim>\<open>assign\<close>: everything happens inside one \<^verbatim>\<open>try\<close> whose handler reports the exception
  and returns. Parameter loading and validation come first; what the command does with the
  validated parameters is the argument \<open>rest\<close>, defined below as \<open>after_validation\<close>.
\<close>

definition assign ::
  "(string \<Rightarrow> exn + pydict) \<Rightarrow> (string \<times> string) list \<Rightarrow> 'm pymodel \<Rightarrow> assign_options \<Rightarrow>
   ('m \<Rightarrow> event list \<times> (exn + unit)) \<Rightarrow> event list" where
  "assign load_config_file environ taxonomy_params opts rest =
     (case load_and_validate_params load_config_file environ (cli_params opts) taxonomy_params
             (opt_config opts) (Some ''TAXONOMY_ASSIGN'') of
        (evs, Inl e) \<Rightarrow> evs @ [ErrorReported e ''Failed to complete taxonomic assignment'']
      | (evs, Inr params) \<Rightarrow>
          (case rest params of
             (evs', Inl e) \<Rightarrow> evs @ evs' @ [ErrorReported e ''Failed to complete taxonomic assignment'']
           | (evs', Inr u) \<Rightarrow> evs @ evs'))"

section \<open>The steps of \<^verbatim>\<open>assign\<close> after validation\<close>

text \<open>
  One row of the BLAST result table, with the columns of the specification's HitRecord.
  The numeric columns are rationals: only their order matters below.
\<close>

record hit =
  query_id :: string
  subject_id :: string
  percent_identity :: rat
  alignment_length :: int
  evalue :: rat
  bit_score :: rat
  query_coverage :: "rat option"

type_synonym taxonomy_mapping = "(string \<times> string) list"

type_synonym thresholds = "(string \<times> pyval) list"

text \<open>
  The validated parameter object, as far as the steps read it; \<open>output_columns\<close> and
  \<open>blast_thresholds\<close> are what its methods \<^verbatim>\<open>get_output_columns()\<close> and
  \<^verbatim>\<open>to_blast_thresholds()\<close> return.
\<close>

record tparams =
  output_file :: string
  taxonomy_map :: "string option"
  assign_method :: string
  export_format :: string
  output_columns :: "string list"
  blast_thresholds :: thresholds

text \<open>
  The collaborators of the steps, none of which is in the sources: the BLAST runner, the
  file system and the CSV reader, the assigner factory of the new taxonomy module, the
  legacy \<^verbatim>\<open>BlastTaxonomyAssigner\<close> (with the flag \<^verbatim>\<open>_has_legacy_blast_taxonomy\<close> that tells
  whether its import succeeded), and the writers of a \<^verbatim>\<open>TaxonomyResult\<close>.
\<close>

record ('a, 'l) collaborators =
  blast_run :: "tparams \<Rightarrow> exn + hit list"
  path_exists :: "string \<Rightarrow> bool"
  read_csv :: "string \<Rightarrow> exn + taxonomy_mapping"
  factory_create :: "taxonomy_mapping \<Rightarrow> exn + 'a"
  new_assign :: "'a \<Rightarrow> hit list \<Rightarrow> string \<Rightarrow> thresholds \<Rightarrow> exn + taxonomy_result"
  has_legacy_blast_taxonomy :: bool
  legacy_create :: "taxonomy_mapping \<Rightarrow> exn + 'l"
  legacy_assign :: "'l \<Rightarrow> hit list \<Rightarrow> string \<Rightarrow> thresholds \<Rightarrow> exn + table"
  write_result :: "writer \<Rightarrow> taxonomy_result \<Rightarrow> string \<Rightarrow> exn option"

text \<open>\<^verbatim>\<open>Series.unique()\<close>: the distinct values in order of first appearance.\<close>

definition unique :: "'a list \<Rightarrow> 'a list" where
  "unique xs = rev (remdups (rev xs))"

function show_nat :: "nat \<Rightarrow> string" where
  "show_nat n =
     (if n < 10 then [''0123456789'' ! n]
      else show_nat (n div 10) @ [''0123456789'' ! (n mod 10)])"
  by pat_completeness auto
termination
  by (relation "measure id") auto

definition write_event ::
  "('a, 'l) collaborators \<Rightarrow> writer \<Rightarrow> taxonomy_result \<Rightarrow> string \<Rightarrow> event list \<times> (exn + unit)" where
  "write_event c w r path =
     (case write_result c w r path of
        Some e \<Rightarrow> ([], Inl e)
      | None \<Rightarrow> ([Exported w r path], Inr ()))"

text \<open>Lines 165 to 172: no hit at all. An empty table is exported and the command returns.\<close>

definition empty_result :: "tparams \<Rightarrow> taxonomy_result" where
  "empty_result params =
     \<lparr>assignments = \<lparr>columns = take 4 (output_columns params), rows = []\<rparr>,
      metadata = [(''method'', ''none''), (''tool'', ''blast'')]\<rparr>"

definition export_empty ::
  "('a, 'l) collaborators \<Rightarrow> tparams \<Rightarrow> event list \<times> (exn + unit)" where
  "export_empty c params =
     (case write_event c (ExportResults (export_format params)) (empty_result params)
             (output_file params) of
        (evs, Inl e) \<Rightarrow> (Warning ''No BLAST hits found'' # evs, Inl e)
      | (evs, Inr u) \<Rightarrow>
          (Warning ''No BLAST hits found'' # evs @ [Success ''Empty results file created''], Inr ()))"

text \<open>
  Lines 179 to 189: the taxonomy mapping. A mapping file that is given and exists is read;
  otherwise every distinct subject of the hits is mapped to \<^verbatim>\<open>Subject_<subject_id>\<close>.
\<close>

definition dummy_taxonomy_mapping :: "hit list \<Rightarrow> taxonomy_mapping" where
  "dummy_taxonomy_mapping blast_results =
     (let unique_subjects = unique (map subject_id blast_results)
      in zip unique_subjects (map (\<lambda>sid. ''Subject_'' @ sid) unique_subjects))"

definition load_taxonomy_mapping ::
  "('a, 'l) collaborators \<Rightarrow> tparams \<Rightarrow> hit list \<Rightarrow> event list \<times> (exn + taxonomy_mapping)" where
  "load_taxonomy_mapping c params blast_results =
     (let fallback =
            ([Warning ''No taxonomy mapping provided, using subject IDs as taxonomy''],
             Inr (dummy_taxonomy_mapping blast_results))
      in case taxonomy_map params of
           None \<Rightarrow> fallback
         | Some p \<Rightarrow>
             (if path_exists c p then
                (case read_csv c p of
                   Inl e \<Rightarrow> ([], Inl e)
                 | Inr tax_map \<Rightarrow>
                     ([Info (''Loaded taxonomy mapping with '' @ show_nat (length tax_map) @
                             '' entries'')],
                      Inr tax_map))
              else fallback))"

text \<open>
  Lines 199 to 212: the assigner of the new taxonomy module is created and run inside a
  \<^verbatim>\<open>try\<close>; its handler catches every \<^verbatim>\<open>Exception\<close>, prints a warning, and runs the legacy
  assigner on the same arguments when that class could be imported.
\<close>

definition new_system ::
  "('a, 'l) collaborators \<Rightarrow> taxonomy_mapping \<Rightarrow> hit list \<Rightarrow> string \<Rightarrow> thresholds \<Rightarrow>
   exn + taxonomy_result" where
  "new_system c tax_map blast_results m th =
     (case factory_create c tax_map of
        Inl e \<Rightarrow> Inl e
      | Inr assigner \<Rightarrow> new_assign c assigner blast_results m th)"

definition legacy_system ::
  "('a, 'l) collaborators \<Rightarrow> taxonomy_mapping \<Rightarrow> hit list \<Rightarrow> string \<Rightarrow> thresholds \<Rightarrow>
   exn + taxonomy_result" where
  "legacy_system c tax_map blast_results m th =
     (case legacy_create c tax_map of
        Inl e \<Rightarrow> Inl e
      | Inr assigner \<Rightarrow>
          (case legacy_assign c assigner blast_results m th of
             Inl e \<Rightarrow> Inl e
           | Inr asg \<Rightarrow> Inr \<lparr>assignments = asg, metadata = [(''method'', m), (''tool'', ''blast'')]\<rparr>))"

definition assign_with_fallback ::
  "('a, 'l) collaborators \<Rightarrow> taxonomy_mapping \<Rightarrow> hit list \<Rightarrow> string \<Rightarrow> thresholds \<Rightarrow>
   event list \<times> (exn + taxonomy_result)" where
  "assign_with_fallback c tax_map blast_results m th =
     (case new_system c tax_map blast_results m th of
        Inr result \<Rightarrow> ([], Inr result)
      | Inl e \<Rightarrow>
          ([Warning (''New taxonomy system failed, falling back to legacy: '' @ str_exn e)],
           if has_legacy_blast_taxonomy c
           then legacy_system c tax_map blast_results m th
           else Inl (RuntimeError ''Both new and legacy taxonomy systems failed'' e)))"

text \<open>
  Lines 220 to 231: the export. For a format other than csv, json and excel the table is
  restricted to the output columns it has; the rows keep their fields.
\<close>

definition export_result ::
  "('a, 'l) collaborators \<Rightarrow> tparams \<Rightarrow> taxonomy_result \<Rightarrow> event list \<times> (exn + unit)" where
  "export_result c params result =
     (if export_format params = ''csv'' then write_event c ToCsv result (output_file params)
      else if export_format params = ''json'' then write_event c ToJson result (output_file params)
      else if export_format params = ''excel'' then write_event c ToExcel result (output_file params)
      else
        (let available_columns =
               filter (\<lambda>col. col \<in> set (columns (assignments result))) (output_columns params);
             final_assignments = (assignments result)\<lparr>columns := available_columns\<rparr>;
             fallback_result = \<lparr>assignments = final_assignments, metadata = metadata result\<rparr>
         in write_event c (ExportResults (export_format params)) fallback_result (output_file params)))"

text \<open>
  Lines 154 to 233: the four steps in order. The value is the result the summary is
  computed from, or \<open>None\<close> when the command has returned after the empty export.
\<close>

definition assignment_steps ::
  "('a, 'l) collaborators \<Rightarrow> tparams \<Rightarrow> event list \<times> (exn + taxonomy_result option)" where
  "assignment_steps c params =
     (case blast_run c params of
        Inl e \<Rightarrow> ([], Inl e)
      | Inr blast_results \<Rightarrow>
          (if length blast_results = 0 then
             (case export_empty c params of
                (evs, Inl e) \<Rightarrow> (evs, Inl e)
              | (evs, Inr u) \<Rightarrow> (evs, Inr None))
           else
             (case load_taxonomy_mapping c params blast_results of
                (evs1, Inl e) \<Rightarrow> (evs1, Inl e)
              | (evs1, Inr tax_map) \<Rightarrow>
                  (case assign_with_fallback c tax_map blast_results (assign_method params)
                          (blast_thresholds params) of
                     (evs2, Inl e) \<Rightarrow> (evs1 @ evs2, Inl e)
                   | (evs2, Inr result) \<Rightarrow>
                       (case export_result c params result of
                          (evs3, Inl e) \<Rightarrow> (evs1 @ evs2 @ evs3, Inl e)
                        | (evs3, Inr u) \<Rightarrow> (evs1 @ evs2 @ evs3, Inr (Some result)))))))"

text \<open>The tables a run has written.\<close>

fun exported_tables :: "event list \<Rightarrow> table list" where
  "exported_tables [] = []"
| "exported_tables (Exported w r path # evs) = assignments r # exported_tables evs"
| "exported_tables (ev # evs) = exported_tables evs"

text \<open>
  The handler object of the command is an instance of \<^verbatim>\<open>StandardCLIHandler\<close>
  (\<^verbatim>\<open>create_cli_handler\<close> returns one). These are the attributes the class gives it in
  \<^verbatim>\<open>standard_cli.py\<close>: the three fields set by \<^verbatim>\<open>__init__\<close> and the methods. Looking up any
  other name on it raises \<^verbatim>\<open>AttributeError\<close>.
\<close>

definition handler_attributes :: "string list" where
  "handler_attributes =
     [''command_name'', ''use_rich'', ''logger'', ''load_and_validate_params'', ''handle_error'',
      ''_handle_error_rich'', ''_handle_error_plain'', ''print_success'', ''print_info'',
      ''print_warning'', ''create_progress_context'', ''create_table'', ''print_table'']"

definition handler_getattr :: "string \<Rightarrow> exn + unit" where
  "handler_getattr name =
     (if name \<in> set handler_attributes then Inr ()
      else Inl (OtherError ''AttributeError''
                  ([CHR 0x27] @ ''StandardCLIHandler'' @ [CHR 0x27] @ '' object has no attribute '' @
                   [CHR 0x27] @ name @ [CHR 0x27])))"

text \<open>
  Lines 134 to 240 of \<^verbatim>\<open>assign\<close>, what the command does with the validated parameters.
  The first statement calls \<^verbatim>\<open>handler.print_header\<close>, and the steps are inside
  \<^verbatim>\<open>with handler.progress()\<close>; each is an attribute lookup on the handler before anything
  else of the statement is evaluated. The header, the configuration table and the summary
  tables print only and are not events.
\<close>

definition after_validation ::
  "('a, 'l) collaborators \<Rightarrow> tparams \<Rightarrow> event list \<times> (exn + unit)" where
  "after_validation c params =
     (case handler_getattr ''print_header'' of
        Inl e \<Rightarrow> ([], Inl e)
      | Inr u \<Rightarrow>
          (case handler_getattr ''progress'' of
             Inl e \<Rightarrow> ([], Inl e)
           | Inr u' \<Rightarrow>
               (case assignment_steps c params of
                  (evs, Inl e) \<Rightarrow> (evs, Inl e)
                | (evs, Inr None) \<Rightarrow> (evs, Inr ())
                | (evs, Inr (Some result)) \<Rightarrow>
                    (evs @ [Success ''Taxonomic assignment completed successfully!'',
                            Info (''Results saved to: '' @ output_file params)],
                     Inr ()))))"

section \<open>The assignment engine of the specification\<close>

text \<open>
  The hit filter and the assignment strategies are code of \<^verbatim>\<open>ionspid.core\<close>, which is not
  in the sources; the command only calls them. The definitions of this section follow the
  specification (sections 3, 4.1 and 4.3).
\<close>

type_synonym lineage = "string list"

text \<open>The unassigned Assignment of a query: no taxonomy, confidence 0, no supporting hit.\<close>

definition unassigned :: "string \<Rightarrow> string \<Rightarrow> assignment" where
  "unassigned q m =
     \<lparr>a_query_id = q, taxonomy = None, a_method = m, confidence = 0, supporting_hit_count = 0\<rparr>"

datatype engine_error = Validation_Error string

text \<open>
  Modelled from the spec: the ranking of the hits of one query, missing with
  \<^verbatim>\<open>BlastFilter\<close> and the assigners. A hit is better than another when its e-value is
  lower; on equal e-values when its bit score is higher; on equal bit scores when its
  subject identifier is lexicographically smaller.
\<close>

definition better :: "hit \<Rightarrow> hit \<Rightarrow> bool" where
  "better a b \<longleftrightarrow>
     evalue a < evalue b \<or>
     (evalue a = evalue b \<and>
       (bit_score b < bit_score a \<or> (bit_score a = bit_score b \<and> subject_id a < subject_id b)))"

fun best_from :: "hit \<Rightarrow> hit list \<Rightarrow> hit" where
  "best_from b [] = b"
| "best_from b (h # hs) = best_from (if better h b then h else b) hs"

text \<open>
  Modelled from the spec: the choice of the BestHit strategy, missing with the assigners.
  One pass over the hits of the query keeps the best hit seen so far; no hit, no choice.
\<close>

definition best_hit :: "hit list \<Rightarrow> hit option" where
  "best_hit hs = (case hs of [] \<Rightarrow> None | h # rest \<Rightarrow> Some (best_from h rest))"

text \<open>
  Modelled from the spec: the choice of the Threshold strategy, missing with the
  assigners. The best hit is accepted only if its identity reaches \<open>min_identity\<close> and its
  coverage, when present, reaches \<open>min_coverage\<close>.
\<close>

definition accepted_hit :: "rat \<Rightarrow> rat \<Rightarrow> hit \<Rightarrow> bool" where
  "accepted_hit min_identity min_coverage h \<longleftrightarrow>
     min_identity \<le> percent_identity h \<and>
     (case query_coverage h of None \<Rightarrow> True | Some cov \<Rightarrow> min_coverage \<le> cov)"

definition threshold_hit :: "rat \<Rightarrow> rat \<Rightarrow> hit list \<Rightarrow> hit option" where
  "threshold_hit min_identity min_coverage hs =
     (case best_hit hs of
        None \<Rightarrow> None
      | Some h \<Rightarrow> (if accepted_hit min_identity min_coverage h then Some h else None))"

text \<open>
  Modelled from the spec: the hit filter (\<^verbatim>\<open>BlastFilter.filter_hits\<close>), missing from the
  sources. An unset threshold disables its check; the survivors keep their relative order;
  with \<open>keep_best_hit_only\<close> one hit is retained for each query, the best of its survivors.
  Thresholds out of their domain are a validation error.
\<close>

record filter_thresholds =
  min_identity :: "rat option"
  min_length :: "int option"
  max_evalue :: "rat option"
  min_bit_score :: "rat option"
  keep_best_hit_only :: bool
  remove_self_hits :: bool

definition at_least :: "'a::linorder option \<Rightarrow> 'a \<Rightarrow> bool" where
  "at_least bound x = (case bound of None \<Rightarrow> True | Some b \<Rightarrow> b \<le> x)"

definition at_most :: "'a::linorder option \<Rightarrow> 'a \<Rightarrow> bool" where
  "at_most bound x = (case bound of None \<Rightarrow> True | Some b \<Rightarrow> x \<le> b)"

definition survives :: "filter_thresholds \<Rightarrow> hit \<Rightarrow> bool" where
  "survives th h \<longleftrightarrow>
     at_least (min_identity th) (percent_identity h) \<and>
     at_least (min_length th) (alignment_length h) \<and>
     at_most (max_evalue th) (evalue h) \<and>
     at_least (min_bit_score th) (bit_score h) \<and>
     (if remove_self_hits th then query_id h \<noteq> subject_id h else True)"

definition thresholds_in_domain :: "filter_thresholds \<Rightarrow> bool" where
  "thresholds_in_domain th \<longleftrightarrow>
     at_least (Some 0) (case min_identity th of None \<Rightarrow> 0 | Some x \<Rightarrow> x) \<and>
     at_most (Some 100) (case min_identity th of None \<Rightarrow> 0 | Some x \<Rightarrow> x) \<and>
     at_least (Some 0) (case min_length th of None \<Rightarrow> 0 | Some x \<Rightarrow> x) \<and>
     at_least (Some 0) (case max_evalue th of None \<Rightarrow> 0 | Some x \<Rightarrow> x) \<and>
     at_least (Some 0) (case min_bit_score th of None \<Rightarrow> 0 | Some x \<Rightarrow> x)"

definition same_query :: "hit \<Rightarrow> hit list \<Rightarrow> hit list" where
  "same_query h hs = filter (\<lambda>g. query_id g = query_id h) hs"

definition keep_best :: "hit list \<Rightarrow> hit list" where
  "keep_best survivors = unique (filter (\<lambda>h. best_hit (same_query h survivors) = Some h) survivors)"

definition filter_hits :: "filter_thresholds \<Rightarrow> hit list \<Rightarrow> engine_error + hit list" where
  "filter_hits th hits =
     (if \<not> thresholds_in_domain th then Inl (Validation_Error ''threshold out of domain'')
      else
        (let survivors = filter (survives th) hits
         in Inr (if keep_best_hit_only th then keep_best survivors else survivors)))"

text \<open>
  Modelled from the spec: the LCA strategy, missing with the assigners. The hits of the
  query are ranked best first and the first \<open>top_hits\<close> are considered. The agreement depth
  is the number of leading ranks at which all considered lineages have the same taxon,
  looking no further than the depth of the shortest of them; the assignment is the lineage
  cut at that depth, with confidence depth over ranks considered, and depth 0 is
  unassigned.
\<close>

fun insert_ranked :: "hit \<times> lineage \<Rightarrow> (hit \<times> lineage) list \<Rightarrow> (hit \<times> lineage) list" where
  "insert_ranked x [] = [x]"
| "insert_ranked x (y # ys) =
     (if better (fst y) (fst x) then y # insert_ranked x ys else x # y # ys)"

definition ranked :: "(hit \<times> lineage) list \<Rightarrow> (hit \<times> lineage) list" where
  "ranked hs = foldr insert_ranked hs []"

definition shortest_depth :: "lineage list \<Rightarrow> nat" where
  "shortest_depth ls = (case ls of [] \<Rightarrow> 0 | l # rest \<Rightarrow> fold min (map length rest) (length l))"

definition agree_at :: "lineage list \<Rightarrow> nat \<Rightarrow> bool" where
  "agree_at ls r = list_all (\<lambda>l. r < length l \<and> l ! r = hd ls ! r) ls"

definition agreement_depth :: "lineage list \<Rightarrow> nat" where
  "agreement_depth ls = length (takeWhile (agree_at ls) [0..<shortest_depth ls])"

definition lca :: "lineage list \<Rightarrow> lineage" where
  "lca ls = (case ls of [] \<Rightarrow> [] | l # rest \<Rightarrow> take (agreement_depth ls) l)"

definition lca_assign :: "nat \<Rightarrow> string \<Rightarrow> (hit \<times> lineage) list \<Rightarrow> assignment" where
  "lca_assign top_hits q hs =
     (let considered = take top_hits (ranked hs);
          ls = map snd considered;
          depth = agreement_depth ls
      in if depth = 0 then unassigned q ''LCA''
         else \<lparr>a_query_id = q, taxonomy = Some (lca ls), a_method = ''LCA'',
               confidence = of_nat depth / of_nat (shortest_depth ls),
               supporting_hit_count = length considered\<rparr>)"

text \<open>
  Modelled from the spec: the Consensus strategy, missing with the assigners. At each rank
  every hit whose lineage reaches the rank casts one vote for its taxon there; the call of
  the rank is the taxon with the most votes (the one voted first among equals) and its
  share is its part of the votes cast at the rank. Descending through the ranks, the call
  is accepted while its share is at least the consensus fraction; the lineage stops at the
  first rank that fails. A fraction outside (0,1] is a validation error, raised before any
  query is looked at.
\<close>

definition votes_at :: "lineage list \<Rightarrow> nat \<Rightarrow> string list" where
  "votes_at ls r = map (\<lambda>l. l ! r) (filter (\<lambda>l. r < length l) ls)"

definition tally :: "string list \<Rightarrow> string \<Rightarrow> nat" where
  "tally votes x = length (filter (\<lambda>v. v = x) votes)"

definition rank_call :: "string list \<Rightarrow> string" where
  "rank_call votes =
     (case votes of
        [] \<Rightarrow> []
      | v # rest \<Rightarrow> fold (\<lambda>x w. if tally votes w < tally votes x then x else w) rest v)"

definition vote_share :: "lineage list \<Rightarrow> nat \<Rightarrow> rat" where
  "vote_share ls r =
     (let votes = votes_at ls r
      in if votes = [] then 0 else of_nat (tally votes (rank_call votes)) / of_nat (length votes))"

definition rank_accepted :: "rat \<Rightarrow> lineage list \<Rightarrow> nat \<Rightarrow> bool" where
  "rank_accepted fraction ls r \<longleftrightarrow> votes_at ls r \<noteq> [] \<and> fraction \<le> vote_share ls r"

definition deepest :: "lineage list \<Rightarrow> nat" where
  "deepest ls = fold max (map length ls) 0"

definition consensus_depth :: "rat \<Rightarrow> lineage list \<Rightarrow> nat" where
  "consensus_depth fraction ls = length (takeWhile (rank_accepted fraction ls) [0..<deepest ls])"

definition consensus_query :: "rat \<Rightarrow> string \<Rightarrow> (hit \<times> lineage) list \<Rightarrow> assignment" where
  "consensus_query fraction q hs =
     (let ls = map snd hs; depth = consensus_depth fraction ls
      in if depth = 0 then unassigned q ''Consensus''
         else \<lparr>a_query_id = q,
               taxonomy = Some (map (\<lambda>r. rank_call (votes_at ls r)) [0..<depth]),
               a_method = ''Consensus'',
               confidence = vote_share ls (depth - 1),
               supporting_hit_count = length hs\<rparr>)"

definition consensus_strategy ::
  "rat \<Rightarrow> (string \<times> (hit \<times> lineage) list) list \<Rightarrow> engine_error + assignment list" where
  "consensus_strategy fraction hits_by_query =
     (if 0 < fraction \<and> fraction \<le> 1
      then Inr (map (\<lambda>(q, hs). consensus_query fraction q hs) hits_by_query)
      else Inl (Validation_Error ''consensus_fraction outside (0, 1]''))"

definition accepted_depth :: "assignment \<Rightarrow> nat" where
  "accepted_depth a = (case taxonomy a of None \<Rightarrow> 0 | Some l \<Rightarrow> length l)"

section \<open>Concrete collaborators\<close>

text \<open>
  Modelled from the spec: the parameter class \<^verbatim>\<open>TaxonomyParams\<close> of
  \<^verbatim>\<open>ionspid.core.taxonomy\<close> is not in the sources. The specification names two kinds of
  malformed configuration, a method that is not one of the five strategy names and a
  \<^verbatim>\<open>consensus_fraction\<close> outside (0,1]; this model rejects exactly those with a
  \<^verbatim>\<open>ValidationError\<close>, and is used where a concrete parameter class is needed.
\<close>

definition validate_taxonomy_params :: "pydict \<Rightarrow> exn + pydict" where
  "validate_taxonomy_params params =
     (if params ''method'' \<notin>
           Some ` PStr ` {''best_hit'', ''lca'', ''threshold'', ''weighted'', ''consensus''}
      then Inl (ValidationError [([''method''], ''unknown method'')] ''1 validation error'')
      else
        (case params ''consensus_fraction'' of
           Some (PFloat (FFinite f)) \<Rightarrow>
             (if 0 < f \<and> f \<le> 1 then Inr params
              else Inl (ValidationError [([''consensus_fraction''], ''not in (0, 1]'')]
                          ''1 validation error''))
         | _ \<Rightarrow> Inl (ValidationError [([''consensus_fraction''], ''not a number'')]
                       ''1 validation error'')))"

definition taxonomy_params_model :: "pydict pymodel" where
  "taxonomy_params_model =
     \<lparr>construct = validate_taxonomy_params, model_validate_strict = validate_taxonomy_params\<rparr>"

text \<open>Options as the command line gives them, here with a consensus fraction of 1.5.\<close>

definition sample_options :: assign_options where
  "sample_options =
     \<lparr>opt_input_file = ''reads.fasta'', opt_output_file = ''out.csv'', opt_database = ''nt'',
      opt_taxonomy_map = None, opt_method = ''consensus'', opt_min_identity = 70,
      opt_min_coverage = 50, opt_max_evalue = 1 / 100000, opt_min_bit_score = 50,
      opt_threads = 4, opt_top_hits = 5, opt_consensus_fraction = 3 / 2,
      opt_export_format = ''csv'', opt_include_confidence = True, opt_blast_params = None,
      opt_config = None, opt_verbose = False\<rparr>"

text \<open>
  Collaborators for running the steps on concrete data: the new assigner cannot be
  created, the legacy assigner exists and returns one unassigned row for each distinct
  query of the hits, every write succeeds, and no mapping file exists.
\<close>

definition sample_hits :: "hit list" where
  "sample_hits =
     [\<lparr>query_id = ''Q1'', subject_id = ''S1'', percent_identity = 99, alignment_length = 150,
       evalue = 1 / 10 ^ 50, bit_score = 280, query_coverage = Some 95\<rparr>,
      \<lparr>query_id = ''Q1'', subject_id = ''S2'', percent_identity = 80, alignment_length = 150,
       evalue = 1 / 10 ^ 10, bit_score = 150, query_coverage = Some 90\<rparr>]"

definition legacy_only :: "hit list \<Rightarrow> (unit, unit) collaborators" where
  "legacy_only found =
     \<lparr>blast_run = (\<lambda>params. Inr found),
      path_exists = (\<lambda>p. False),
      read_csv = (\<lambda>p. Inl (OtherError ''FileNotFoundError'' p)),
      factory_create = (\<lambda>tm. Inl (OtherError ''ValueError'' ''Unknown tool'')),
      new_assign = (\<lambda>a hs m th. Inl (OtherError ''ValueError'' ''Unknown tool'')),
      has_legacy_blast_taxonomy = True,
      legacy_create = (\<lambda>tm. Inr ()),
      legacy_assign =
        (\<lambda>a hs m th. Inr \<lparr>columns = [''query_id'', ''taxonomy''],
                           rows = map (\<lambda>q. unassigned q m) (unique (map query_id hs))\<rparr>),
      write_result = (\<lambda>w r p. None)\<rparr>"

definition sample_tparams :: tparams where
  "sample_tparams =
     \<lparr>output_file = ''out.csv'', taxonomy_map = None, assign_method = ''lca'',
      export_format = ''csv'',
      output_columns = [''query_id'', ''taxonomy'', ''assignment_method'', ''confidence'', ''subject_id''],
      blast_thresholds = []\<rparr>"

text \<open>
  Options that pass validation (consensus fraction 0.6, method lca), and a parameter class
  that accepts what \<open>taxonomy_params_model\<close> accepts and yields the parameter object of
  these options.
\<close>

definition valid_options :: assign_options where
  "valid_options = sample_options\<lparr>opt_method := ''lca'', opt_consensus_fraction := 3 / 5\<rparr>"

definition accept_as_sample :: "pydict \<Rightarrow> exn + tparams" where
  "accept_as_sample params =
     (case validate_taxonomy_params params of Inl e \<Rightarrow> Inl e | Inr p \<Rightarrow> Inr sample_tparams)"

definition sample_params_model :: "tparams pymodel" where
  "sample_params_model =
     \<lparr>construct = accept_as_sample, model_validate_strict = accept_as_sample\<rparr>"

text \<open>
  Data for the engine of the specification: three hits of one query with the same e-value,
  the two hits of the end-to-end scenario with their lineages, and three lineages of one
  query for the consensus vote.
\<close>

definition tied_hits :: "hit list" where
  "tied_hits =
     [\<lparr>query_id = ''Q1'', subject_id = ''S2'', percent_identity = 97, alignment_length = 150,
       evalue = 1 / 1000, bit_score = 100, query_coverage = Some 95\<rparr>,
      \<lparr>query_id = ''Q1'', subject_id = ''S3'', percent_identity = 97, alignment_length = 150,
       evalue = 1 / 1000, bit_score = 90, query_coverage = Some 95\<rparr>,
      \<lparr>query_id = ''Q1'', subject_id = ''S1'', percent_identity = 97, alignment_length = 150,
       evalue = 1 / 1000, bit_score = 100, query_coverage = None\<rparr>]"

definition sample_lineages :: "(hit \<times> lineage) list" where
  "sample_lineages =
     [(sample_hits ! 1, [''Bacteria'', ''Firmicutes'', ''Bacillus'']),
      (sample_hits ! 0, [''Bacteria'', ''Proteobacteria'', ''E.coli''])]"

definition three_lineages :: "(string \<times> (hit \<times> lineage) list) list" where
  "three_lineages =
     [(''Q1'',
       [(sample_hits ! 0, [''Bacteria'', ''Proteobacteria'', ''E.coli'']),
        (sample_hits ! 1, [''Bacteria'', ''Firmicutes'', ''Bacillus'']),
        (sample_hits ! 0, [''Bacteria'', ''Proteobacteria''])])]"

section \<open>Properties of the parameter loader\<close>

lemma lower_char_eq_e: "lower_char c = CHR ''e'' \<longleftrightarrow> c = CHR ''e'' \<or> c = CHR ''E''"
  by (auto simp: lower_char_def split: if_splits)

lemma e_in_lower: "CHR ''e'' \<in> set (lower v) \<longleftrightarrow> CHR ''e'' \<in> set v \<or> CHR ''E'' \<in> set v"
proof -
  have "CHR ''e'' \<in> set (lower v) \<longleftrightarrow> (\<exists>c\<in>set v. CHR ''e'' = lower_char c)"
    unfolding lower_def set_map image_iff ..
  also have "\<dots> \<longleftrightarrow> (\<exists>c\<in>set v. c = CHR ''e'' \<or> c = CHR ''E'')"
    by (metis lower_char_eq_e)
  finally show ?thesis
    by blast
qed

text \<open>
  Claim C9. In the dictionary \<^verbatim>\<open>merge_params\<close> returns, every key takes the CLI value when
  that CLI argument is present and not \<^verbatim>\<open>None\<close>, otherwise the environment value when the
  environment has the key, otherwise the config-file value (or stays absent); a CLI
  argument that is \<^verbatim>\<open>None\<close> never overrides a source of lower precedence.
\<close>

theorem merge_params_precedence:
  "merge_params cli_args env_vars config k =
     (case cli_args k of
        Some v \<Rightarrow>
          (if v \<noteq> PNone then Some v
           else (case env_vars k of Some e \<Rightarrow> Some e | None \<Rightarrow> config k))
      | None \<Rightarrow> (case env_vars k of Some e \<Rightarrow> Some e | None \<Rightarrow> config k))"
  by (simp add: merge_params_def not_none_items_def map_add_def split: option.splits)

theorem merge_params_precedence_witness:
  "merge_params
     [''threads'' \<mapsto> PNone, ''method'' \<mapsto> PStr ''lca'']
     [''threads'' \<mapsto> PInt 8, ''method'' \<mapsto> PStr ''consensus'']
     [''threads'' \<mapsto> PInt 4, ''database'' \<mapsto> PStr ''nt''] ''threads'' = Some (PInt 8)"
  using merge_params_precedence
    [of "[''threads'' \<mapsto> PNone, ''method'' \<mapsto> PStr ''lca'']"
        "[''threads'' \<mapsto> PInt 8, ''method'' \<mapsto> PStr ''consensus'']"
        "[''threads'' \<mapsto> PInt 4, ''database'' \<mapsto> PStr ''nt'']" "''threads''"]
  by simp

text \<open>
  Claim C10, as the code has it. \<^verbatim>\<open>_coerce_env_value\<close> maps the strings true, yes, 1, on
  (in any letter case) to \<^verbatim>\<open>True\<close> and false, no, 0, off to \<^verbatim>\<open>False\<close> before any numeric
  parse, so the string 1 is the boolean and never the integer. Any other string is given
  to \<^verbatim>\<open>int\<close> alone when it contains none of the characters \<open>.\<close>, \<open>e\<close> and \<open>E\<close>, and to
  \<^verbatim>\<open>float\<close> alone otherwise; when the one parse that was chosen fails, the value stays the
  string. The test for the exponent letter is made on the lower-cased string, which is why
  the capital letter counts as well.
\<close>

theorem coerce_env_value_dispatch:
  "coerce_env_value v =
     (if lower v \<in> {''true'', ''yes'', ''1'', ''on''} then PBool True
      else if lower v \<in> {''false'', ''no'', ''0'', ''off''} then PBool False
      else if CHR ''.'' \<notin> set v \<and> CHR ''e'' \<notin> set v \<and> CHR ''E'' \<notin> set v
      then (case py_int v of Some i \<Rightarrow> PInt i | None \<Rightarrow> PStr v)
      else (case py_float v of Some x \<Rightarrow> PFloat x | None \<Rightarrow> PStr v))"
  unfolding coerce_env_value_def e_in_lower
  by (simp split: option.splits)

theorem coerce_env_value_dispatch_witness:
  "coerce_env_value ''1'' = PBool True \<and> coerce_env_value ''12'' = PInt 12
   \<and> coerce_env_value ''1.5'' = PFloat (FFinite (3 / 2)) \<and> coerce_env_value ''abc'' = PStr ''abc''"
  using coerce_env_value_dispatch [of "''1''"] coerce_env_value_dispatch [of "''12''"]
    coerce_env_value_dispatch [of "''1.5''"] coerce_env_value_dispatch [of "''abc''"]
  by (simp add: lower_def lower_char_def py_float_def py_int_def strip_def is_space_def
      signed_def floatnumber_def mantissa_def digitpart_def digit_val_def exponent_def pow10_def)

text \<open>
  The string 1E5 contains neither a dot nor the letter \<open>e\<close> and is not an integer literal,
  yet it is delivered as the float 100000.0: the sentence of C10 that sends every string
  without \<open>.\<close> and \<open>e\<close> to the integer parse does not hold for it.
\<close>

theorem coerce_env_value_counterexample:
  "CHR ''.'' \<notin> set ''1E5'' \<and> CHR ''e'' \<notin> set ''1E5'' \<and> py_int ''1E5'' = None
   \<and> coerce_env_value ''1E5'' = PFloat (FFinite 100000)"
  by (simp add: coerce_env_value_def lower_def lower_char_def py_float_def py_int_def strip_def
      is_space_def signed_def floatnumber_def mantissa_def digitpart_def digit_val_def
      exponent_def pow10_def)

section \<open>Properties of the command\<close>

lemma sample_merged:
  "merge_params (cli_params sample_options) (load_env_vars [] ''TAXONOMY_ASSIGN'') Map.empty ''method''
     = Some (PStr ''consensus'')"
  "merge_params (cli_params sample_options) (load_env_vars [] ''TAXONOMY_ASSIGN'') Map.empty
     ''consensus_fraction'' = Some (PFloat (FFinite (3 / 2)))"
  by (simp_all add: merge_params_def not_none_items_def map_add_def
      cli_params_def sample_options_def load_env_vars_def opt_str_def)

lemma sample_rejected:
  "construct taxonomy_params_model
     (merge_params (cli_params sample_options) (load_env_vars [] ''TAXONOMY_ASSIGN'') Map.empty)
   = Inl (ValidationError [([''consensus_fraction''], ''not in (0, 1]'')] ''1 validation error'')"
  by (simp add: taxonomy_params_model_def validate_taxonomy_params_def sample_merged)

text \<open>
  Claim C6, as the code has it. When the parameter class rejects the merged parameters
  (a malformed threshold such as a consensus fraction outside (0,1], or an unknown method
  name), the failure comes before anything else the command does: the run consists of two
  error reports, whatever follows validation is never started, and nothing is exported.
  The exception is not a \<^verbatim>\<open>ValidationError\<close>: \<^verbatim>\<open>validate_parameters\<close> catches that one and
  raises \<^verbatim>\<open>CLIError\<close> with the formatted messages, \<^verbatim>\<open>load_and_validate_params\<close> reports
  it and raises \<^verbatim>\<open>click.ClickException\<close>, and \<^verbatim>\<open>assign\<close> reports that and returns.
\<close>

theorem assign_validation_fails_fast:
  assumes cfg: "(case opt_config opts of
                   Some p \<Rightarrow> (if p \<noteq> [] then load_config_file p else Inr Map.empty)
                 | None \<Rightarrow> Inr Map.empty) = Inr config_params"
    and bad: "construct taxonomy_params
                (merge_params (cli_params opts) (load_env_vars environ ''TAXONOMY_ASSIGN'') config_params)
              = Inl (ValidationError errors msg)"
  shows "load_and_validate_params load_config_file environ (cli_params opts) taxonomy_params
           (opt_config opts) (Some ''TAXONOMY_ASSIGN'') =
           ([ErrorReported (CLIError (validation_message errors)) ''Parameter validation failed''],
            Inl (ClickException (validation_message errors)))
       \<and> assign load_config_file environ taxonomy_params opts rest =
           [ErrorReported (CLIError (validation_message errors)) ''Parameter validation failed'',
            ErrorReported (ClickException (validation_message errors))
              ''Failed to complete taxonomic assignment'']"
proof -
  have v: "validate_parameters
             (merge_params (cli_params opts) (load_env_vars environ ''TAXONOMY_ASSIGN'') config_params)
             taxonomy_params False = Inl (CLIError (validation_message errors))"
    using bad by (simp add: validate_parameters_def)
  have l: "load_and_validate_params load_config_file environ (cli_params opts) taxonomy_params
           (opt_config opts) (Some ''TAXONOMY_ASSIGN'') =
           ([ErrorReported (CLIError (validation_message errors)) ''Parameter validation failed''],
            Inl (ClickException (validation_message errors)))"
    unfolding load_and_validate_params_def cfg
    by (simp add: v is_config_or_cli_error_def)
  show ?thesis
    by (simp add: l assign_def)
qed

theorem assign_validation_fails_fast_witness:
  "assign (\<lambda>p. Inr Map.empty) [] taxonomy_params_model sample_options
      (\<lambda>params. ([Success ''done''], Inr ())) =
     [ErrorReported (CLIError (validation_message [([''consensus_fraction''], ''not in (0, 1]'')]))
        ''Parameter validation failed'',
      ErrorReported (ClickException (validation_message [([''consensus_fraction''], ''not in (0, 1]'')]))
        ''Failed to complete taxonomic assignment'']"
proof -
  have cfg: "(case opt_config sample_options of
                Some p \<Rightarrow> (if p \<noteq> [] then (\<lambda>p. Inr Map.empty) p else Inr Map.empty)
              | None \<Rightarrow> Inr Map.empty) = (Inr Map.empty :: exn + pydict)"
    by (simp add: sample_options_def)
  from assign_validation_fails_fast [OF cfg sample_rejected] show ?thesis
    by simp
qed

text \<open>
  For the sample options, whose consensus fraction is 1.5, the exception that leaves
  \<^verbatim>\<open>validate_parameters\<close> is a \<^verbatim>\<open>CLIError\<close>; the sentence of C6 by which a
  \<^verbatim>\<open>ValidationError\<close> is raised does not hold.
\<close>

theorem validate_parameters_counterexample:
  "validate_parameters
     (merge_params (cli_params sample_options) (load_env_vars [] ''TAXONOMY_ASSIGN'') Map.empty)
     taxonomy_params_model False =
   Inl (CLIError (''Parameter validation failed:'' @ [CHR 0x0A] @ ''  consensus_fraction: not in (0, 1]''))"
  by (simp add: validate_parameters_def sample_rejected validation_message_def)



lemma assign_stops_at_print_header:
  assumes "load_and_validate_params load_config_file environ (cli_params opts) taxonomy_params
             (opt_config opts) (Some ''TAXONOMY_ASSIGN'') = ([], Inr params)"
  shows "assign load_config_file environ taxonomy_params opts (after_validation c) =
           [ErrorReported
              (OtherError ''AttributeError''
                 ([CHR 0x27] @ ''StandardCLIHandler'' @ [CHR 0x27] @ '' object has no attribute '' @
                  [CHR 0x27] @ ''print_header'' @ [CHR 0x27]))
              ''Failed to complete taxonomic assignment'']"
  using assms
  by (simp add: assign_def after_validation_def handler_getattr_def handler_attributes_def)

lemma valid_merged:
  "merge_params (cli_params valid_options) (load_env_vars [] ''TAXONOMY_ASSIGN'') Map.empty ''method''
     = Some (PStr ''lca'')"
  "merge_params (cli_params valid_options) (load_env_vars [] ''TAXONOMY_ASSIGN'') Map.empty
     ''consensus_fraction'' = Some (PFloat (FFinite (3 / 5)))"
  by (simp_all add: merge_params_def not_none_items_def map_add_def
      cli_params_def valid_options_def sample_options_def load_env_vars_def opt_str_def)

lemma valid_options_accepted:
  "load_and_validate_params (\<lambda>p. Inr Map.empty) [] (cli_params valid_options) sample_params_model
     (opt_config valid_options) (Some ''TAXONOMY_ASSIGN'') = ([], Inr sample_tparams)"
proof -
  have "construct sample_params_model
          (merge_params (cli_params valid_options) (load_env_vars [] ''TAXONOMY_ASSIGN'') Map.empty)
        = Inr sample_tparams"
    by (simp add: sample_params_model_def accept_as_sample_def validate_taxonomy_params_def
        valid_merged)
  then show ?thesis
    by (simp add: load_and_validate_params_def validate_parameters_def valid_options_def
        sample_options_def)
qed

text \<open>
  Claim C1 asks that the exported result holds exactly one Assignment for each distinct
  query of the hits. The command as written does not get that far. The options below pass
  validation and the search would find the two hits of query Q1; the next statement of
  \<^verbatim>\<open>assign\<close> looks up \<^verbatim>\<open>print_header\<close> on the handler, which \<^verbatim>\<open>StandardCLIHandler\<close> does
  not define. The \<^verbatim>\<open>AttributeError\<close> is reported by the command's own handler and the
  command returns: the run is that one report, and no table is exported, so Q1 has no
  Assignment.
\<close>

theorem assign_exports_nothing:
  "assign (\<lambda>p. Inr Map.empty) [] sample_params_model valid_options
       (after_validation (legacy_only sample_hits)) =
     [ErrorReported
        (OtherError ''AttributeError''
           ([CHR 0x27] @ ''StandardCLIHandler'' @ [CHR 0x27] @ '' object has no attribute '' @
            [CHR 0x27] @ ''print_header'' @ [CHR 0x27]))
        ''Failed to complete taxonomic assignment'']
   \<and> exported_tables
        (assign (\<lambda>p. Inr Map.empty) [] sample_params_model valid_options
           (after_validation (legacy_only sample_hits))) = []"
  by (simp add: assign_stops_at_print_header [OF valid_options_accepted])

section \<open>Properties of the engine of the specification\<close>

subsection \<open>The ranking of hits\<close>

lemma better_irrefl: "\<not> better a a"
  by (simp add: better_def)

lemma better_asym: "better a b \<Longrightarrow> \<not> better b a"
  by (auto simp: better_def)

lemma not_better_trans: "\<not> better a b \<Longrightarrow> \<not> better b c \<Longrightarrow> \<not> better a c"
  unfolding better_def by (smt (verit) less_trans not_less_iff_gr_or_eq)

lemma not_better_law:
  "\<not> better h b \<longleftrightarrow>
     evalue b \<le> evalue h \<and>
     (evalue h = evalue b \<longrightarrow>
        bit_score h \<le> bit_score b \<and> (bit_score h = bit_score b \<longrightarrow> subject_id b \<le> subject_id h))"
  by (auto simp: better_def not_less)

lemma tie_same_key:
  "\<not> better a b \<Longrightarrow> \<not> better b a \<Longrightarrow>
     evalue a = evalue b \<and> bit_score a = bit_score b \<and> subject_id a = subject_id b"
  by (auto simp: not_better_law)

lemma best_from_mem: "best_from b hs \<in> set (b # hs)"
  by (induction hs arbitrary: b) auto

lemma best_from_le_start: "\<not> better b (best_from b hs)"
proof (induction hs arbitrary: b)
  case Nil
  show ?case by (simp add: better_irrefl)
next
  case (Cons h hs)
  show ?case
  proof (cases "better h b")
    case True
    then have "\<not> better b h" by (rule better_asym)
    moreover have "\<not> better h (best_from h hs)" by (rule Cons)
    ultimately have "\<not> better b (best_from h hs)" by (rule not_better_trans)
    with True show ?thesis by simp
  next
    case False
    with Cons [of b] show ?thesis by simp
  qed
qed

lemma best_from_least: "x \<in> set (b # hs) \<Longrightarrow> \<not> better x (best_from b hs)"
proof (induction hs arbitrary: b)
  case Nil
  then show ?case by (simp add: better_irrefl)
next
  case (Cons h hs)
  let ?b' = "if better h b then h else b"
  have res: "best_from b (h # hs) = best_from ?b' hs" by simp
  have start: "\<not> better ?b' (best_from ?b' hs)" by (rule best_from_le_start)
  consider "x = b" | "x = h" | "x \<in> set hs" using Cons.prems by auto
  then show ?case
  proof cases
    case 1
    have "\<not> better b ?b'" by (auto simp: better_irrefl dest: better_asym)
    from this start have "\<not> better b (best_from ?b' hs)" by (rule not_better_trans)
    with 1 res show ?thesis by simp
  next
    case 2
    have "\<not> better h ?b'" by (auto simp: better_irrefl)
    from this start have "\<not> better h (best_from ?b' hs)" by (rule not_better_trans)
    with 2 res show ?thesis by simp
  next
    case 3
    then have "x \<in> set (?b' # hs)" by simp
    from Cons.IH [OF this] res show ?thesis by simp
  qed
qed

lemma best_hit_mem: "best_hit hs = Some b \<Longrightarrow> b \<in> set hs"
  using best_from_mem by (auto simp: best_hit_def split: list.splits)

lemma best_hit_least: "best_hit hs = Some b \<Longrightarrow> h \<in> set hs \<Longrightarrow> \<not> better h b"
  using best_from_least by (auto simp: best_hit_def split: list.splits)

lemma best_hit_None: "best_hit hs = None \<longleftrightarrow> hs = []"
  by (simp add: best_hit_def split: list.splits)

lemma set_unique: "set (unique xs) = set xs"
  by (simp add: unique_def)

lemma distinct_unique: "distinct (unique xs)"
  by (simp add: unique_def)

lemma keep_best_mem:
  "h \<in> set (keep_best s) \<longleftrightarrow> h \<in> set s \<and> best_hit (same_query h s) = Some h"
  by (auto simp: keep_best_def set_unique)

lemma keep_best_one_per_query: "distinct (map query_id (keep_best s))"
proof -
  have "inj_on query_id (set (keep_best s))"
  proof (rule inj_onI)
    fix a b assume a: "a \<in> set (keep_best s)" and b: "b \<in> set (keep_best s)"
      and q: "query_id a = query_id b"
    from q have "same_query a s = same_query b s" by (simp add: same_query_def)
    with a b show "a = b" by (simp add: keep_best_mem)
  qed
  then show ?thesis
    by (simp add: distinct_map keep_best_def distinct_unique)
qed

lemma keep_best_queries: "set (map query_id (keep_best s)) = set (map query_id s)"
proof
  show "set (map query_id (keep_best s)) \<subseteq> set (map query_id s)"
    by (auto simp: keep_best_mem)
  show "set (map query_id s) \<subseteq> set (map query_id (keep_best s))"
  proof
    fix q assume "q \<in> set (map query_id s)"
    then obtain h where h: "h \<in> set s" "query_id h = q" by auto
    then have "same_query h s \<noteq> []" by (auto simp: same_query_def filter_empty_conv)
    then obtain b where b: "best_hit (same_query h s) = Some b"
      using best_hit_None [of "same_query h s"] by (cases "best_hit (same_query h s)") auto
    from best_hit_mem [OF b] have bs: "b \<in> set s" "query_id b = query_id h"
      by (auto simp: same_query_def)
    then have "same_query b s = same_query h s" by (simp add: same_query_def)
    with b bs have "b \<in> set (keep_best s)" by (simp add: keep_best_mem)
    then have "query_id b \<in> set (map query_id (keep_best s))" by simp
    with bs h show "q \<in> set (map query_id (keep_best s))" by simp
  qed
qed

text \<open>
  Claim C3. Whenever the BestHit choice for the hits of a query exists, it is one of the
  hits, no hit has a lower e-value, and against every hit with the same e-value it has the
  higher or equal bit score and, on equal bit scores too, the lexicographically smaller or
  equal subject identifier. The Threshold strategy chooses the same hit when it chooses
  one. The choice does not depend on the order of the hits: two lists with the same hits
  give choices with the same e-value, bit score and subject identifier. The hit filter
  with \<open>keep_best_hit_only\<close> retains exactly one hit for each query that has a survivor,
  and that hit is the BestHit choice among the survivors of its query.
\<close>

theorem tie_break_law:
  "(\<forall>b. best_hit hs = Some b \<longrightarrow>
      b \<in> set hs \<and>
      (\<forall>h\<in>set hs. evalue b \<le> evalue h \<and>
         (evalue h = evalue b \<longrightarrow>
            bit_score h \<le> bit_score b \<and>
            (bit_score h = bit_score b \<longrightarrow> subject_id b \<le> subject_id h))))
   \<and> (\<forall>b. threshold_hit min_id min_cov hs = Some b \<longrightarrow> best_hit hs = Some b)
   \<and> (\<forall>b b'. best_hit hs = Some b \<and> best_hit hs' = Some b' \<and> set hs = set hs' \<longrightarrow>
        evalue b = evalue b' \<and> bit_score b = bit_score b' \<and> subject_id b = subject_id b')
   \<and> (\<forall>out. filter_hits th hits = Inr out \<and> keep_best_hit_only th \<longrightarrow>
        distinct (map query_id out) \<and>
        set (map query_id out) = set (map query_id (filter (survives th) hits)) \<and>
        (\<forall>b\<in>set out. best_hit (same_query b (filter (survives th) hits)) = Some b))"
proof -
  have law: "\<forall>b. best_hit hs = Some b \<longrightarrow>
      b \<in> set hs \<and>
      (\<forall>h\<in>set hs. evalue b \<le> evalue h \<and>
         (evalue h = evalue b \<longrightarrow>
            bit_score h \<le> bit_score b \<and>
            (bit_score h = bit_score b \<longrightarrow> subject_id b \<le> subject_id h)))"
  proof (intro allI impI)
    fix b assume b: "best_hit hs = Some b"
    have "evalue b \<le> evalue h \<and>
         (evalue h = evalue b \<longrightarrow>
            bit_score h \<le> bit_score b \<and>
            (bit_score h = bit_score b \<longrightarrow> subject_id b \<le> subject_id h))"
      if "h \<in> set hs" for h
    proof -
      from b that have "\<not> better h b" by (rule best_hit_least)
      then show ?thesis using not_better_law [of h b] by blast
    qed
    with best_hit_mem [OF b] show "b \<in> set hs \<and>
      (\<forall>h\<in>set hs. evalue b \<le> evalue h \<and>
         (evalue h = evalue b \<longrightarrow>
            bit_score h \<le> bit_score b \<and>
            (bit_score h = bit_score b \<longrightarrow> subject_id b \<le> subject_id h)))"
      by blast
  qed
  have threshold: "\<forall>b. threshold_hit min_id min_cov hs = Some b \<longrightarrow> best_hit hs = Some b"
    by (auto simp: threshold_hit_def split: option.splits if_splits)
  have order: "\<forall>b b'. best_hit hs = Some b \<and> best_hit hs' = Some b' \<and> set hs = set hs' \<longrightarrow>
        evalue b = evalue b' \<and> bit_score b = bit_score b' \<and> subject_id b = subject_id b'"
  proof (intro allI impI)
    fix b b' assume a: "best_hit hs = Some b \<and> best_hit hs' = Some b' \<and> set hs = set hs'"
    then have "b \<in> set hs'" "b' \<in> set hs" using best_hit_mem by auto
    with a have "\<not> better b b'" "\<not> better b' b" using best_hit_least by auto
    then show "evalue b = evalue b' \<and> bit_score b = bit_score b' \<and> subject_id b = subject_id b'"
      by (rule tie_same_key)
  qed
  have filtered: "\<forall>out. filter_hits th hits = Inr out \<and> keep_best_hit_only th \<longrightarrow>
        distinct (map query_id out) \<and>
        set (map query_id out) = set (map query_id (filter (survives th) hits)) \<and>
        (\<forall>b\<in>set out. best_hit (same_query b (filter (survives th) hits)) = Some b)"
  proof (intro allI impI)
    fix out assume "filter_hits th hits = Inr out \<and> keep_best_hit_only th"
    then have out: "out = keep_best (filter (survives th) hits)"
      by (auto simp: filter_hits_def Let_def split: if_splits)
    show "distinct (map query_id out) \<and>
        set (map query_id out) = set (map query_id (filter (survives th) hits)) \<and>
        (\<forall>b\<in>set out. best_hit (same_query b (filter (survives th) hits)) = Some b)"
      unfolding out using keep_best_one_per_query keep_best_queries
      by (simp add: keep_best_mem)
  qed
  from law threshold order filtered show ?thesis
    by (intro conjI)
qed

lemma best_tied: "best_hit tied_hits = Some (tied_hits ! 2)"
  by (simp add: best_hit_def tied_hits_def better_def)

theorem tie_break_law_witness:
  "best_hit tied_hits = Some (tied_hits ! 2) \<and> tied_hits ! 2 \<in> set tied_hits
   \<and> evalue (tied_hits ! 2) = evalue (tied_hits ! 0)
   \<and> bit_score (tied_hits ! 2) = bit_score (tied_hits ! 0)
   \<and> subject_id (tied_hits ! 2) \<le> subject_id (tied_hits ! 0)"
proof -
  from tie_break_law [of tied_hits, THEN conjunct1, rule_format, OF best_tied]
  have mem: "tied_hits ! 2 \<in> set tied_hits"
    and law: "\<forall>h\<in>set tied_hits. evalue (tied_hits ! 2) \<le> evalue h \<and>
         (evalue h = evalue (tied_hits ! 2) \<longrightarrow>
            bit_score h \<le> bit_score (tied_hits ! 2) \<and>
            (bit_score h = bit_score (tied_hits ! 2) \<longrightarrow> subject_id (tied_hits ! 2) \<le> subject_id h))"
    by blast+
  have "tied_hits ! 0 \<in> set tied_hits" by (simp add: tied_hits_def)
  with law have "evalue (tied_hits ! 0) = evalue (tied_hits ! 2) \<longrightarrow>
            bit_score (tied_hits ! 0) \<le> bit_score (tied_hits ! 2) \<and>
            (bit_score (tied_hits ! 0) = bit_score (tied_hits ! 2) \<longrightarrow>
               subject_id (tied_hits ! 2) \<le> subject_id (tied_hits ! 0))"
    by blast
  moreover have "evalue (tied_hits ! 0) = evalue (tied_hits ! 2)"
    "bit_score (tied_hits ! 0) = bit_score (tied_hits ! 2)"
    by (simp_all add: tied_hits_def)
  ultimately show ?thesis using best_tied mem by simp
qed

subsection \<open>Lowest common ancestor\<close>

lemma fold_min_le: "fold min xs (a::nat) \<le> a"
proof (induction xs arbitrary: a)
  case Nil
  show ?case by simp
next
  case (Cons x xs)
  have "fold min xs (min x a) \<le> min x a" by (rule Cons.IH)
  also have "min x a \<le> a" by simp
  finally show ?case by simp
qed

lemma fold_min_le_mem: "x \<in> set xs \<Longrightarrow> fold min xs (a::nat) \<le> x"
proof (induction xs arbitrary: a)
  case Nil
  then show ?case by simp
next
  case (Cons y ys)
  show ?case
  proof (cases "x = y")
    case True
    have "fold min ys (min y a) \<le> min y a" by (rule fold_min_le)
    with True show ?thesis by simp
  next
    case False
    with Cons show ?thesis by simp
  qed
qed

lemma fold_min_ge: "k \<le> a \<Longrightarrow> \<forall>x\<in>set xs. k \<le> x \<Longrightarrow> k \<le> fold min xs (a::nat)"
  by (induction xs arbitrary: a) auto

lemma shortest_depth_le: "l \<in> set ls \<Longrightarrow> shortest_depth ls \<le> length l"
  by (cases ls) (auto simp: shortest_depth_def fold_min_le fold_min_le_mem)

lemma shortest_depth_ge: "ls \<noteq> [] \<Longrightarrow> \<forall>l\<in>set ls. k \<le> length l \<Longrightarrow> k \<le> shortest_depth ls"
  by (cases ls) (auto simp: shortest_depth_def intro!: fold_min_ge)

lemma takeWhile_upt: "takeWhile P [0..<n] = [0..<length (takeWhile P [0..<n])]"
proof -
  have "takeWhile P [0..<n] = take (length (takeWhile P [0..<n])) [0..<n]"
    by (rule takeWhile_eq_take)
  also have "\<dots> = [0..<min (length (takeWhile P [0..<n])) n]"
    by (simp add: take_upt min_def)
  also have "min (length (takeWhile P [0..<n])) n = length (takeWhile P [0..<n])"
    using length_takeWhile_le [of P "[0..<n]"] by simp
  finally show ?thesis .
qed

lemma takeWhile_upt_holds: "r < length (takeWhile P [0..<n]) \<Longrightarrow> P r"
proof -
  assume r: "r < length (takeWhile P [0..<n])"
  then have "r \<in> set [0..<length (takeWhile P [0..<n])]" by simp
  then have "r \<in> set (takeWhile P [0..<n])" using takeWhile_upt [of P n] by simp
  then show "P r" by (rule set_takeWhileD [THEN conjunct2])
qed

lemma takeWhile_upt_reaches:
  assumes "k \<le> n" and "\<forall>r<k. P r"
  shows "k \<le> length (takeWhile P [0..<n])"
proof (rule ccontr)
  let ?d = "length (takeWhile P [0..<n])"
  assume "\<not> k \<le> ?d"
  then have d: "?d < k" by simp
  with assms have "?d < length [0..<n]" by simp
  then have "\<not> P ([0..<n] ! ?d)" by (rule nth_length_takeWhile)
  moreover have "[0..<n] ! ?d = ?d" using d assms by simp
  ultimately show False using assms d by simp
qed

lemma takeWhile_length_mono:
  "(\<And>x. P x \<Longrightarrow> Q x) \<Longrightarrow> length (takeWhile P xs) \<le> length (takeWhile Q xs)"
  by (induction xs) auto

lemma agreement_depth_le: "l \<in> set ls \<Longrightarrow> agreement_depth ls \<le> length l"
  using length_takeWhile_le [of "agree_at ls" "[0..<shortest_depth ls]"] shortest_depth_le [of l ls]
  by (simp add: agreement_depth_def)

lemma agreement_nth:
  assumes "l \<in> set ls" "r < agreement_depth ls"
  shows "l ! r = hd ls ! r"
proof -
  from assms(2) have "agree_at ls r"
    unfolding agreement_depth_def by (rule takeWhile_upt_holds)
  with assms(1) show ?thesis
    by (simp add: agree_at_def list_all_iff)
qed

lemma lca_take: "l \<in> set ls \<Longrightarrow> lca ls = take (agreement_depth ls) l"
proof -
  assume l: "l \<in> set ls"
  then obtain l0 rest where ls: "ls = l0 # rest" by (cases ls) auto
  have "take (agreement_depth ls) l0 = take (agreement_depth ls) l"
  proof (rule nth_equalityI)
    show "length (take (agreement_depth ls) l0) = length (take (agreement_depth ls) l)"
      using agreement_depth_le [of l ls] agreement_depth_le [of l0 ls] l ls by simp
    fix i assume "i < length (take (agreement_depth ls) l0)"
    then have i: "i < agreement_depth ls" by simp
    from agreement_nth [OF l i] ls have "l ! i = l0 ! i" by simp
    with i show "take (agreement_depth ls) l0 ! i = take (agreement_depth ls) l ! i" by simp
  qed
  with ls show ?thesis by (simp add: lca_def)
qed

lemma lca_prefix: "l \<in> set ls \<Longrightarrow> prefix (lca ls) l"
  by (simp add: lca_take take_is_prefix)

lemma length_lca: "length (lca ls) = agreement_depth ls"
proof (cases ls)
  case Nil
  then show ?thesis by (simp add: lca_def agreement_depth_def shortest_depth_def)
next
  case (Cons l rest)
  then have "l \<in> set ls" by simp
  from lca_take [OF this] agreement_depth_le [OF this] show ?thesis by simp
qed

lemma lca_deepest:
  assumes ne: "ls \<noteq> []" and p: "\<forall>l\<in>set ls. prefix p l"
  shows "prefix p (lca ls)"
proof -
  from ne obtain l0 rest where ls: "ls = l0 # rest" by (cases ls) auto
  have len: "\<forall>l\<in>set ls. length p \<le> length l" using p by (auto dest: prefix_length_le)
  then have k: "length p \<le> shortest_depth ls" using ne by (simp add: shortest_depth_ge)
  have nth: "l ! r = p ! r" if "l \<in> set ls" "r < length p" for l r
  proof -
    from p that obtain zs where "l = p @ zs" by (auto simp: prefix_def)
    with that show ?thesis by (simp add: nth_append)
  qed
  have "\<forall>r<length p. agree_at ls r"
  proof (intro allI impI)
    fix r assume r: "r < length p"
    have "hd ls ! r = p ! r" using nth [of l0 r] r ls by simp
    with r len nth show "agree_at ls r"
      by (auto simp: agree_at_def list_all_iff)
  qed
  with k have "length p \<le> agreement_depth ls"
    unfolding agreement_depth_def by (rule takeWhile_upt_reaches)
  moreover from p ls have "prefix p l0" by simp
  ultimately have "prefix p (take (agreement_depth ls) l0)"
    by (auto simp: prefix_def take_append min_def elim!: )
  with ls show ?thesis by (simp add: lca_def)
qed

text \<open>
  Claim C4. The lineage the LCA strategy assigns is not empty and is a prefix, rank for
  rank, of the lineage of every one of the top hits that were considered. Agreement depth
  0 gives the unassigned Assignment. The assigned lineage is the deepest such prefix: every
  common prefix of the considered lineages is a prefix of it. Lineages of different depth
  are compared up to the shorter one only: when one lineage is a prefix of the other, their
  common ancestor is the shorter lineage itself.
\<close>

theorem lca_sound:
  "(\<forall>l. taxonomy (lca_assign n q hs) = Some l \<longrightarrow>
      l \<noteq> [] \<and> (\<forall>x\<in>set (take n (ranked hs)). prefix l (snd x)))
   \<and> (agreement_depth (map snd (take n (ranked hs))) = 0 \<longrightarrow>
        lca_assign n q hs = unassigned q ''LCA'')
   \<and> (\<forall>ls p. ls \<noteq> [] \<and> (\<forall>l\<in>set ls. prefix p l) \<longrightarrow> prefix p (lca ls))
   \<and> (\<forall>l1 l2. prefix l1 l2 \<longrightarrow> lca [l1, l2] = l1)"
proof -
  let ?ls = "map snd (take n (ranked hs))"
  have sound: "\<forall>l. taxonomy (lca_assign n q hs) = Some l \<longrightarrow>
      l \<noteq> [] \<and> (\<forall>x\<in>set (take n (ranked hs)). prefix l (snd x))"
  proof (intro allI impI)
    fix l assume l: "taxonomy (lca_assign n q hs) = Some l"
    then have d: "agreement_depth ?ls \<noteq> 0" and eq: "l = lca ?ls"
      by (auto simp: lca_assign_def Let_def unassigned_def split: if_splits)
    from d eq have "l \<noteq> []" using length_lca [of ?ls] by auto
    moreover have "prefix l (snd x)" if "x \<in> set (take n (ranked hs))" for x
      unfolding eq using that by (intro lca_prefix) simp
    ultimately show "l \<noteq> [] \<and> (\<forall>x\<in>set (take n (ranked hs)). prefix l (snd x))"
      by blast
  qed
  have zero: "agreement_depth ?ls = 0 \<longrightarrow> lca_assign n q hs = unassigned q ''LCA''"
    by (simp add: lca_assign_def Let_def)
  have deep: "\<forall>ls p. ls \<noteq> [] \<and> (\<forall>l\<in>set ls. prefix p l) \<longrightarrow> prefix p (lca ls)"
    using lca_deepest by blast
  have shorter: "\<forall>l1 l2. prefix l1 l2 \<longrightarrow> lca [l1, l2] = l1"
  proof (intro allI impI)
    fix l1 l2 :: lineage assume p: "prefix l1 l2"
    then have "prefix l1 (lca [l1, l2])" by (intro lca_deepest) auto
    moreover have "prefix (lca [l1, l2]) l1" by (intro lca_prefix) simp
    ultimately show "lca [l1, l2] = l1" by (simp add: prefix_order.eq_iff)
  qed
  from sound zero deep shorter show ?thesis
    by (intro conjI)
qed

theorem lca_sound_witness:
  "taxonomy (lca_assign 2 ''Q1'' sample_lineages) = Some [''Bacteria'']
   \<and> prefix [''Bacteria''] [''Bacteria'', ''Firmicutes'', ''Bacillus'']
   \<and> prefix [''Bacteria''] [''Bacteria'', ''Proteobacteria'', ''E.coli'']"
proof -
  have r: "take 2 (ranked sample_lineages) =
      [(sample_hits ! 0, [''Bacteria'', ''Proteobacteria'', ''E.coli'']),
       (sample_hits ! 1, [''Bacteria'', ''Firmicutes'', ''Bacillus''])]"
    by (simp add: ranked_def sample_lineages_def sample_hits_def better_def)
  have t: "taxonomy (lca_assign 2 ''Q1'' sample_lineages) = Some [''Bacteria'']"
    by (simp add: lca_assign_def Let_def r lca_def agreement_depth_def shortest_depth_def
        agree_at_def upt_rec [of 0] upt_rec [of 1] upt_rec [of 2] upt_rec [of 3])
  from lca_sound [of 2 "''Q1''" sample_lineages, THEN conjunct1, rule_format, OF t]
  have "\<forall>x\<in>set (take 2 (ranked sample_lineages)). prefix [''Bacteria''] (snd x)"
    by blast
  with r t show ?thesis by simp
qed

subsection \<open>Consensus\<close>

lemma rank_accepted_mono: "f1 \<le> f2 \<Longrightarrow> rank_accepted f2 ls r \<Longrightarrow> rank_accepted f1 ls r"
  by (auto simp: rank_accepted_def)

lemma consensus_depth_mono: "f1 \<le> f2 \<Longrightarrow> consensus_depth f2 ls \<le> consensus_depth f1 ls"
  unfolding consensus_depth_def
  by (rule takeWhile_length_mono) (rule rank_accepted_mono)

lemma accepted_depth_consensus:
  "accepted_depth (consensus_query f q hs) = consensus_depth f (map snd hs)"
  by (simp add: consensus_query_def accepted_depth_def Let_def unassigned_def)

text \<open>
  Claim C5. For consensus fractions \<open>f1 \<le> f2\<close> in (0,1], the depth of the lineage that
  the Consensus strategy accepts for a query at \<open>f2\<close> is at most the depth it accepts at
  \<open>f1\<close>; both fractions are valid, so the strategy returns assignments for both, and the
  inequality holds query by query.
\<close>

theorem consensus_monotone:
  assumes "0 < f1" and "f1 \<le> f2" and "f2 \<le> 1"
  shows "accepted_depth (consensus_query f2 q hs) \<le> accepted_depth (consensus_query f1 q hs)
     \<and> (\<exists>as1 as2. consensus_strategy f1 hits_by_query = Inr as1
          \<and> consensus_strategy f2 hits_by_query = Inr as2
          \<and> list_all2 (\<lambda>a2 a1. accepted_depth a2 \<le> accepted_depth a1) as2 as1)"
proof -
  have q: "accepted_depth (consensus_query f2 q hs) \<le> accepted_depth (consensus_query f1 q hs)"
    for q hs
    using assms(2) by (simp add: accepted_depth_consensus consensus_depth_mono)
  have "list_all2 (\<lambda>a2 a1. accepted_depth a2 \<le> accepted_depth a1)
          (map (\<lambda>(q, hs). consensus_query f2 q hs) hits_by_query)
          (map (\<lambda>(q, hs). consensus_query f1 q hs) hits_by_query)"
    by (auto simp: list_all2_map1 list_all2_map2 list_all2_same q)
  moreover from assms have "0 < f2" "f1 \<le> 1" by auto
  ultimately show ?thesis
    using assms q by (simp add: consensus_strategy_def)
qed

lemma three_lineages_depths:
  "consensus_depth (1 / 2) (map snd (snd (three_lineages ! 0))) = 3"
  "consensus_depth (3 / 4) (map snd (snd (three_lineages ! 0))) = 1"
  by code_simp+

theorem consensus_monotone_witness:
  "(0::rat) < 1 / 2 \<and> (1::rat) / 2 \<le> 3 / 4 \<and> (3::rat) / 4 \<le> 1
   \<and> accepted_depth (consensus_query (3 / 4) ''Q1'' (snd (three_lineages ! 0))) = 1
   \<and> accepted_depth (consensus_query (1 / 2) ''Q1'' (snd (three_lineages ! 0))) = 3"
proof -
  have h: "(0::rat) < 1 / 2" "(1::rat) / 2 \<le> 3 / 4" "(3::rat) / 4 \<le> 1" by simp_all
  from consensus_monotone [OF h, of "''Q1''" "snd (three_lineages ! 0)" three_lineages]
  have "accepted_depth (consensus_query (3 / 4) ''Q1'' (snd (three_lineages ! 0)))
      \<le> accepted_depth (consensus_query (1 / 2) ''Q1'' (snd (three_lineages ! 0)))"
    by blast
  then show ?thesis
    using h by (simp add: accepted_depth_consensus three_lineages_depths)
qed

section \<open>The taxonomy mapping of the command\<close>





end
